theory Spec2Isabelle
  imports Main "HOL-Library.Sublist"
begin

section \<open>The instruction dispatcher of the Bananabread VM\<close>

text \<open>
  The development embeds \<^verbatim>\<open>Bananabread::Handlers::handle\<close> of
  \<^verbatim>\<open>vm/src/handlers.cpp\<close>:
  \<^verbatim>\<open>
  Dispatch::Action* handle(Instruction::Code* code, VM::Registers reg,
                           stack<Value::Base> stack) {
    if (dynamic_cast<Instruction::Label*>(code)) {
      return new Dispatch::Cont();
    } else if (dynamic_cast<Instruction::Value*>(code)) {
      return new Dispatch::Cont();
    } else if (dynamic_cast<Instruction::Halt*>(code)) {
      return new Dispatch::Stop();
    }
    return new Dispatch::Error("internal error: unhandled instruction");
  }
  \<close>
\<close>

subsection \<open>Pointers and run-time type identification\<close>

text \<open>
  A pointer is either null (\<open>None\<close>) or refers to an object (\<open>Some obj\<close>). The
  dispatcher only inspects the object behind \<open>code\<close>, it never writes through the
  pointer, so the object itself stands for the address.
\<close>

type_synonym 'a ptr = "'a option"

text \<open>
  The pointer form of \<^verbatim>\<open>dynamic_cast<T*>(p)\<close>: null for a null operand, null when
  the object is not a \<open>T\<close>, the pointer itself otherwise. Unlike the reference form it
  never throws \<^verbatim>\<open>std::bad_cast\<close>. The class test \<open>is_T\<close> is the argument.
\<close>

definition dynamic_cast :: "('a \<Rightarrow> bool) \<Rightarrow> 'a ptr \<Rightarrow> 'a ptr" where
  "dynamic_cast is_T p =
     (case p of
        None \<Rightarrow> None
      | Some obj \<Rightarrow> if is_T obj then Some obj else None)"

subsection \<open>Instructions\<close>

text \<open>
  Modelled from the spec: the class hierarchy below \<^verbatim>\<open>Instruction::Code\<close>, whose
  declaration (\<^verbatim>\<open>handlers.hpp\<close> and the instruction header it includes) is not among
  the sources. The spec gives a closed, disjoint variant set: \<open>Label\<close> (a jump target
  marker), \<open>Value\<close> (carries a literal payload) and \<open>Halt\<close>, and expects further
  variants (arithmetic, jumps, calls) that this dispatcher does not know. \<open>Other n\<close>
  stands for any such class, \<open>n\<close> telling them apart; no class derives from two of
  the variants. The payload type \<open>'v\<close> of \<open>Value\<close> is \<^verbatim>\<open>Value::Base\<close>, also
  undeclared here, and is left a parameter.
\<close>

datatype 'v Code =
    is_Label: Label string
  | is_Value: Value 'v
  | is_Halt: Halt
  | is_Other: Other nat

subsection \<open>Dispatch actions\<close>

text \<open>
  Modelled from the spec: the subclasses of \<^verbatim>\<open>Dispatch::Action\<close>, declared in a header
  that is not among the sources. The three constructors are the ones the dispatcher
  calls: \<^verbatim>\<open>Cont()\<close>, \<^verbatim>\<open>Stop()\<close> and \<^verbatim>\<open>Error(message)\<close>.
\<close>

datatype Action = Cont | Stop | Error string

subsection \<open>Machine state seen by one call\<close>

text \<open>
  One activation of \<open>handle\<close> sees its two by-value parameters \<open>reg\<close> and \<open>stack\<close>
  (copies of the caller's \<^verbatim>\<open>VM::Registers\<close> and \<^verbatim>\<open>std::stack<Value::Base>\<close>, the
  top of the stack at the head of the list) and the free store on which \<^verbatim>\<open>new\<close>
  allocates the action objects. The register type \<open>'r\<close> and the value type \<open>'v\<close>
  are declared outside the sources and stay parameters. An address is an index into
  the free store.
\<close>

type_synonym addr = nat

record ('r, 'v) vm_state =
  reg :: 'r
  stack :: "'v list"
  free_store :: "Action list"

text \<open>\<^verbatim>\<open>new Dispatch::T(...)\<close> when the allocation succeeds: the object is placed
  at the first unused address, which is returned; nothing else in the state changes.
  The allocation that fails is \<open>operator_new\<close> below.\<close>

definition new_Action :: "Action \<Rightarrow> ('r, 'v) vm_state \<Rightarrow> addr \<times> ('r, 'v) vm_state" where
  "new_Action a s = (length (free_store s), s\<lparr>free_store := free_store s @ [a]\<rparr>)"

text \<open>Reading the object behind a returned pointer; an address that was never
  allocated holds nothing.\<close>

definition returned :: "addr \<times> ('r, 'v) vm_state \<Rightarrow> Action option" where
  "returned r =
     (case r of (p, s) \<Rightarrow>
        if p < length (free_store s) then Some (free_store s ! p) else None)"

subsection \<open>The dispatcher, for a call that completes\<close>

text \<open>The chain of tests of the source, each \<^verbatim>\<open>new\<close> succeeding.\<close>

definition handle :: "'v Code ptr \<Rightarrow> ('r, 'v) vm_state \<Rightarrow> addr \<times> ('r, 'v) vm_state" where
  "handle code s =
     (if dynamic_cast is_Label code \<noteq> None then new_Action Cont s
      else if dynamic_cast is_Value code \<noteq> None then new_Action Cont s
      else if dynamic_cast is_Halt code \<noteq> None then new_Action Stop s
      else new_Action (Error ''internal error: unhandled instruction'') s)"

subsection \<open>The dispatcher with allocation failure\<close>

text \<open>
  Every return of the source is a plain \<^verbatim>\<open>new\<close> expression, whose allocation function
  throws \<^verbatim>\<open>std::bad_alloc\<close> when the free store has no room. \<open>handle\<close> is not
  declared \<^verbatim>\<open>noexcept\<close> and has no \<^verbatim>\<open>try\<close> block, so the exception leaves the call
  and no action is returned. How much the free store can hold is a fact of the
  environment: \<open>capacity\<close>, the number of action objects that fit, is a parameter
  (the buffer of an error message counts as part of its \<open>Error\<close> object). A thrown
  exception is the \<open>Inl\<close> outcome; the state is then as it was.
\<close>

datatype exn = bad_alloc

definition operator_new ::
  "nat \<Rightarrow> Action \<Rightarrow> ('r, 'v) vm_state \<Rightarrow> exn + (addr \<times> ('r, 'v) vm_state)" where
  "operator_new capacity a s =
     (if length (free_store s) < capacity then Inr (new_Action a s) else Inl bad_alloc)"

definition handle_or_throw ::
  "nat \<Rightarrow> 'v Code ptr \<Rightarrow> ('r, 'v) vm_state \<Rightarrow> exn + (addr \<times> ('r, 'v) vm_state)" where
  "handle_or_throw capacity code s =
     (if dynamic_cast is_Label code \<noteq> None then operator_new capacity Cont s
      else if dynamic_cast is_Value code \<noteq> None then operator_new capacity Cont s
      else if dynamic_cast is_Halt code \<noteq> None then operator_new capacity Stop s
      else operator_new capacity (Error ''internal error: unhandled instruction'') s)"

subsection \<open>A dispatcher with the variant checks in a given order\<close>

text \<open>
  The spec's ordering rule speaks of the three variant checks tried in some fixed order
  with the error default last. \<open>handle_in_order\<close> is that dispatcher for an arbitrary
  list of checks: each check is the cast of the source, and each answers with the
  action the source constructs for its variant.
\<close>

datatype variant_check = CheckLabel | CheckValue | CheckHalt

fun check_passes :: "variant_check \<Rightarrow> 'v Code ptr \<Rightarrow> bool" where
  "check_passes CheckLabel code = (dynamic_cast is_Label code \<noteq> None)"
| "check_passes CheckValue code = (dynamic_cast is_Value code \<noteq> None)"
| "check_passes CheckHalt code = (dynamic_cast is_Halt code \<noteq> None)"

fun check_action :: "variant_check \<Rightarrow> Action" where
  "check_action CheckLabel = Cont"
| "check_action CheckValue = Cont"
| "check_action CheckHalt = Stop"

fun handle_in_order ::
  "variant_check list \<Rightarrow> 'v Code ptr \<Rightarrow> ('r, 'v) vm_state \<Rightarrow> addr \<times> ('r, 'v) vm_state" where
  "handle_in_order [] code s =
     new_Action (Error ''internal error: unhandled instruction'') s"
| "handle_in_order (k # ks) code s =
     (if check_passes k code then new_Action (check_action k) s
      else handle_in_order ks code s)"

section \<open>Basic facts\<close>

lemma dynamic_cast_null [simp]: "dynamic_cast is_T None = None"
  by (simp add: dynamic_cast_def)

lemma dynamic_cast_obj [simp]:
  "dynamic_cast is_T (Some obj) = (if is_T obj then Some obj else None)"
  by (simp add: dynamic_cast_def)

lemma returned_new_Action [simp]: "returned (new_Action a s) = Some a"
  by (simp add: returned_def new_Action_def)

lemma new_Action_params [simp]:
  "reg (snd (new_Action a s)) = reg s" "stack (snd (new_Action a s)) = stack s"
  by (simp_all add: new_Action_def)

text \<open>The decision of the dispatcher, variant by variant.\<close>

lemma returned_handle_cases:
  "returned (handle code s) =
     Some (case code of
             None \<Rightarrow> Error ''internal error: unhandled instruction''
           | Some (Label l) \<Rightarrow> Cont
           | Some (Value v) \<Rightarrow> Cont
           | Some Halt \<Rightarrow> Stop
           | Some (Other n) \<Rightarrow> Error ''internal error: unhandled instruction'')"
  by (simp add: handle_def split: option.split Code.split)

text \<open>The casts are disjoint: at most one of the three succeeds on any pointer.\<close>

lemma casts_disjoint:
  assumes "check_passes k code" and "check_passes k' code"
  shows "k = k'"
proof (cases code)
  case None
  with assms show ?thesis by (cases k) simp_all
next
  case (Some c)
  with assms show ?thesis by (cases c; cases k; cases k'; simp)
qed

text \<open>No branch of the dispatcher assigns its parameters \<open>reg\<close> and \<open>stack\<close>.\<close>

lemma handle_params_unchanged:
  "reg (snd (handle code s)) = reg s \<and> stack (snd (handle code s)) = stack s"
  by (simp add: handle_def)

text \<open>A call either completes as \<open>handle\<close> describes, or throws because the free
  store is full; the two models differ in nothing else.\<close>

lemma handle_or_throw_eq:
  "handle_or_throw capacity code s =
     (if length (free_store s) < capacity then Inr (handle code s) else Inl bad_alloc)"
  by (simp add: handle_or_throw_def handle_def operator_new_def)

lemma handle_or_throw_exhausted:
  "capacity \<le> length (free_store s) \<Longrightarrow> handle_or_throw capacity code s = Inl bad_alloc"
  by (simp add: handle_or_throw_eq)

text \<open>The action a completed call constructs, read off the three casts.\<close>

lemma handle_constructs:
  "handle code s =
     new_Action
       (if dynamic_cast is_Label code \<noteq> None then Cont
        else if dynamic_cast is_Value code \<noteq> None then Cont
        else if dynamic_cast is_Halt code \<noteq> None then Stop
        else Error ''internal error: unhandled instruction'') s"
  by (simp add: handle_def)

text \<open>The fixed diagnostic is not empty and names the condition.\<close>

lemma diagnostic_text:
  "''internal error: unhandled instruction'' \<noteq> []"
  "sublist ''internal'' ''internal error: unhandled instruction''"
  "sublist ''unhandled instruction'' ''internal error: unhandled instruction''"
  by (simp_all add: sublist_Cons_right)

text \<open>The source's chain of tests is the ordered dispatcher for Label, Value, Halt.\<close>

lemma handle_is_source_order:
  "handle code s = handle_in_order [CheckLabel, CheckValue, CheckHalt] code s"
  by (simp add: handle_def)

text \<open>An ordered dispatcher answers with the one check that passes, wherever it
  stands in the list, and with the error default when none passes.\<close>

lemma handle_in_order_passing:
  assumes "k \<in> set ks" and "check_passes k code"
  shows "handle_in_order ks code s = new_Action (check_action k) s"
  using assms
proof (induction ks)
  case Nil
  then show ?case by simp
next
  case (Cons k' ks)
  show ?case
  proof (cases "check_passes k' code")
    case True
    from True Cons.prems(2) have "k' = k" by (rule casts_disjoint)
    with True show ?thesis by simp
  next
    case False
    with Cons.prems have "k \<in> set ks" by auto
    with Cons.IH Cons.prems(2) False show ?thesis by simp
  qed
qed

lemma handle_in_order_default:
  assumes "\<forall>k \<in> set ks. \<not> check_passes k code"
  shows "handle_in_order ks code s =
         new_Action (Error ''internal error: unhandled instruction'') s"
  using assms by (induction ks) simp_all

lemma handle_in_order_set:
  assumes "set ks = set ks'"
  shows "handle_in_order ks code s = handle_in_order ks' code s"
proof (cases "\<exists>k \<in> set ks. check_passes k code")
  case True
  then obtain k where k: "k \<in> set ks" "check_passes k code" by blast
  from k assms have "k \<in> set ks'" by simp
  with k show ?thesis by (simp add: handle_in_order_passing)
next
  case False
  with assms show ?thesis by (simp add: handle_in_order_default)
qed

section \<open>The dispatch contract\<close>

text \<open>
  C1. For every instruction that is none of Label, Value or Halt (any further variant
  \<open>Other n\<close>), the dispatcher returns an Error action whose message is non-empty and
  contains both "internal" and "unhandled instruction"; and an instruction for which
  it returns an Error action is none of Label, Value, Halt.
\<close>

theorem handle_error_iff_unhandled:
  "(\<not> is_Label c \<and> \<not> is_Value c \<and> \<not> is_Halt c \<longrightarrow>
      (\<exists>m. returned (handle (Some c) s) = Some (Error m) \<and> m \<noteq> [] \<and>
           sublist ''internal'' m \<and> sublist ''unhandled instruction'' m))
   \<and> ((\<exists>m. returned (handle (Some c) s) = Some (Error m)) \<longrightarrow>
      \<not> is_Label c \<and> \<not> is_Value c \<and> \<not> is_Halt c)"
proof (cases c)
  case (Label l)
  then show ?thesis by (simp add: returned_handle_cases)
next
  case (Value v)
  then show ?thesis by (simp add: returned_handle_cases)
next
  case Halt
  then show ?thesis by (simp add: returned_handle_cases)
next
  case (Other n)
  then have "returned (handle (Some c) s) =
             Some (Error ''internal error: unhandled instruction'')"
    by (simp add: returned_handle_cases)
  with Other show ?thesis by (simp add: diagnostic_text)
qed

theorem handle_error_iff_unhandled_witness:
  "\<not> is_Label (Other 7 :: int Code) \<and> \<not> is_Value (Other 7 :: int Code) \<and>
   \<not> is_Halt (Other 7 :: int Code) \<and>
   (\<exists>m. returned (handle (Some (Other 7 :: int Code))
                    \<lparr>reg = (0::nat), stack = [42], free_store = []\<rparr>) = Some (Error m)
        \<and> m \<noteq> [] \<and> sublist ''internal'' m \<and> sublist ''unhandled instruction'' m)"
  using handle_error_iff_unhandled
    [of "Other 7 :: int Code" "\<lparr>reg = (0::nat), stack = [42], free_store = []\<rparr>"]
  by simp

text \<open>
  C2. The dispatcher returns Stop for the Halt instruction, and for nothing else:
  whatever the pointer \<open>code\<close>, the returned action is Stop exactly when \<open>code\<close>
  points to a Halt.
\<close>

theorem handle_stop_iff_halt:
  "(returned (handle code s) = Some Stop) = (code = Some Halt)"
proof (cases code)
  case None
  then show ?thesis by (simp add: returned_handle_cases)
next
  case (Some c)
  then show ?thesis by (cases c) (simp_all add: returned_handle_cases)
qed

theorem handle_stop_iff_halt_witness:
  "returned (handle (Some (Halt :: int Code))
              \<lparr>reg = (0::nat), stack = [42], free_store = []\<rparr>) = Some Stop
   \<and> returned (handle (Some (Label ''loop_start'' :: int Code))
              \<lparr>reg = (0::nat), stack = [42], free_store = []\<rparr>) \<noteq> Some Stop"
  using handle_stop_iff_halt
    [of "Some (Halt :: int Code)" "\<lparr>reg = (0::nat), stack = [42], free_store = []\<rparr>"]
    handle_stop_iff_halt
    [of "Some (Label ''loop_start'' :: int Code)"
        "\<lparr>reg = (0::nat), stack = [42], free_store = []\<rparr>"]
  by simp

text \<open>
  C3. For every Label instruction the dispatcher returns Cont.
\<close>

theorem handle_label_cont:
  "returned (handle (Some (Label l)) s) = Some Cont"
  by (simp add: returned_handle_cases)

text \<open>
  C4. For every Value instruction the dispatcher returns Cont; the returned action is
  neither Stop nor an Error.
\<close>

theorem handle_value_cont:
  "returned (handle (Some (Value v)) s) = Some Cont \<and>
   returned (handle (Some (Value v)) s) \<noteq> Some Stop \<and>
   (\<forall>m. returned (handle (Some (Value v)) s) \<noteq> Some (Error m))"
  by (simp add: returned_handle_cases)

text \<open>
  C5. As stated the claim fails: with a full free store the call throws
  \<^verbatim>\<open>std::bad_alloc\<close> and returns nothing. Amended: for every pointer \<open>code\<close> (null included) and every state
  in which the free store has room for one more object, the call does not throw and
  returns exactly one newly constructed action: its result is the first unused
  address, the store grows by exactly the one object placed there, and that object is
  Cont, Stop or the Error with the fixed diagnostic. It is the Error exactly when all
  three variant checks fail, so a failure to classify the instruction is reported only
  as the returned Error value.
\<close>

theorem handle_returns_unless_bad_alloc:
  assumes "length (free_store s) < capacity"
  shows "\<exists>a. handle_or_throw capacity code s =
              Inr (length (free_store s), s\<lparr>free_store := free_store s @ [a]\<rparr>)
     \<and> (a = Cont \<or> a = Stop \<or> a = Error ''internal error: unhandled instruction'')
     \<and> ((a = Error ''internal error: unhandled instruction'') =
          (dynamic_cast is_Label code = None \<and> dynamic_cast is_Value code = None \<and>
           dynamic_cast is_Halt code = None))"
proof -
  define a where "a =
    (if dynamic_cast is_Label code \<noteq> None then Cont
     else if dynamic_cast is_Value code \<noteq> None then Cont
     else if dynamic_cast is_Halt code \<noteq> None then Stop
     else Error ''internal error: unhandled instruction'')"
  from assms have "handle_or_throw capacity code s = Inr (handle code s)"
    by (simp add: handle_or_throw_eq)
  also have "handle code s = new_Action a s"
    unfolding a_def by (rule handle_constructs)
  also have "new_Action a s =
             (length (free_store s), s\<lparr>free_store := free_store s @ [a]\<rparr>)"
    by (simp add: new_Action_def)
  finally have call: "handle_or_throw capacity code s =
      Inr (length (free_store s), s\<lparr>free_store := free_store s @ [a]\<rparr>)" .
  have kinds: "a = Cont \<or> a = Stop \<or> a = Error ''internal error: unhandled instruction''"
    by (simp add: a_def)
  have error: "(a = Error ''internal error: unhandled instruction'') =
      (dynamic_cast is_Label code = None \<and> dynamic_cast is_Value code = None \<and>
       dynamic_cast is_Halt code = None)"
    by (simp add: a_def)
  from call kinds error show ?thesis by blast
qed

theorem handle_returns_unless_bad_alloc_witness:
  "length (free_store \<lparr>reg = (0::nat), stack = [42::int], free_store = [Cont]\<rparr>) < 8 \<and>
   (\<exists>a. handle_or_throw 8 (Some (Other 7 :: int Code))
            \<lparr>reg = (0::nat), stack = [42], free_store = [Cont]\<rparr>
          = Inr (1, \<lparr>reg = 0, stack = [42], free_store = [Cont, a]\<rparr>)
      \<and> a = Error ''internal error: unhandled instruction'')"
proof -
  have room: "length (free_store \<lparr>reg = (0::nat), stack = [42::int], free_store = [Cont]\<rparr>) < 8"
    by simp
  from handle_returns_unless_bad_alloc
         [OF room, of "Some (Other 7 :: int Code)"]
  show ?thesis by simp
qed

text \<open>The input at which the claim as stated fails: the free store holds two objects
  and has room for two, the instruction is a Halt, and the call throws.\<close>

theorem handle_bad_alloc_counterexample:
  "handle_or_throw 2 (Some (Halt :: int Code))
     \<lparr>reg = (0::nat), stack = [], free_store = [Cont, Cont]\<rparr> = Inl bad_alloc"
  by (simp add: handle_or_throw_def operator_new_def)

text \<open>
  C6. For every Label, Value or Halt instruction, the register state and the operand
  stack are the same after the call as before it: same contents, same depth.
\<close>

theorem handle_frame:
  "is_Label c \<or> is_Value c \<or> is_Halt c \<Longrightarrow>
   reg (snd (handle (Some c) s)) = reg s \<and>
   stack (snd (handle (Some c) s)) = stack s \<and>
   length (stack (snd (handle (Some c) s))) = length (stack s)"
  by (simp add: handle_params_unchanged)

theorem handle_frame_witness:
  "(is_Label (Value 42 :: int Code) \<or> is_Value (Value 42 :: int Code) \<or>
      is_Halt (Value 42 :: int Code)) \<and>
   reg (snd (handle (Some (Value 42 :: int Code))
              \<lparr>reg = (3::nat), stack = [7, 8], free_store = [Cont]\<rparr>)) = 3 \<and>
   stack (snd (handle (Some (Value 42 :: int Code))
              \<lparr>reg = (3::nat), stack = [7, 8], free_store = [Cont]\<rparr>)) = [7, 8] \<and>
   length (stack (snd (handle (Some (Value 42 :: int Code))
              \<lparr>reg = (3::nat), stack = [7, 8], free_store = [Cont]\<rparr>))) = 2"
  using handle_frame
    [of "Value 42 :: int Code" "\<lparr>reg = (3::nat), stack = [7, 8], free_store = [Cont]\<rparr>"]
  by simp

text \<open>
  C7. Calling the dispatcher a second time with the same instruction, in the state the
  first call left (registers and stack as before, the free store one object longer),
  returns the same action as the first call.
\<close>

theorem handle_twice_same:
  "returned (handle code (snd (handle code s))) = returned (handle code s)"
  by (simp add: returned_handle_cases)

text \<open>
  C8. A dispatcher that tries the three variant checks in any order, the error default
  last, returns exactly what the source's order Label, Value, Halt returns, for every
  pointer and state. The casts are disjoint (\<open>casts_disjoint\<close>), which is what the
  proof rests on.
\<close>

theorem handle_order_irrelevant:
  assumes "distinct ks" and "set ks = {CheckLabel, CheckValue, CheckHalt}"
  shows "handle_in_order ks code s = handle code s"
proof -
  from assms(2) have "set ks = set [CheckLabel, CheckValue, CheckHalt]"
    by simp
  then have "handle_in_order ks code s =
             handle_in_order [CheckLabel, CheckValue, CheckHalt] code s"
    by (rule handle_in_order_set)
  also have "\<dots> = handle code s"
    by (simp only: handle_is_source_order)
  finally show ?thesis .
qed

theorem handle_order_irrelevant_witness:
  "distinct [CheckHalt, CheckValue, CheckLabel] \<and>
   set [CheckHalt, CheckValue, CheckLabel] = {CheckLabel, CheckValue, CheckHalt} \<and>
   handle_in_order [CheckHalt, CheckValue, CheckLabel] (Some (Label ''loop_start'' :: int Code))
       \<lparr>reg = (0::nat), stack = [], free_store = []\<rparr>
     = handle (Some (Label ''loop_start'' :: int Code))
       \<lparr>reg = (0::nat), stack = [], free_store = []\<rparr>"
proof -
  have d: "distinct [CheckHalt, CheckValue, CheckLabel]" by simp
  have e: "set [CheckHalt, CheckValue, CheckLabel] = {CheckLabel, CheckValue, CheckHalt}"
    by auto
  from d e handle_order_irrelevant [OF d e] show ?thesis by blast
qed

text \<open>
  C9. On a null pointer each of the three casts yields null, and the dispatcher returns
  the Error action with the message "internal error: unhandled instruction".
\<close>

theorem handle_null_error:
  "dynamic_cast is_Label (None :: 'v Code ptr) = None \<and>
   dynamic_cast is_Value (None :: 'v Code ptr) = None \<and>
   dynamic_cast is_Halt (None :: 'v Code ptr) = None \<and>
   returned (handle (None :: 'v Code ptr) s) =
     Some (Error ''internal error: unhandled instruction'')"
  by (simp add: returned_handle_cases)

text \<open>
  C10. The returned action depends on the instruction only: for one pointer \<open>code\<close>
  and any two states (any registers, any stacks, any free stores) the dispatcher
  returns the same action.
\<close>

theorem handle_independent_of_state:
  "returned (handle code s) = returned (handle code s')"
  by (simp add: returned_handle_cases)

end
